theory Spec2Isabelle
  imports Complex_Main "HOL-Library.AList"
begin

section \<open>Python values, exceptions and strings\<close>

text \<open>
  The RAG pipeline of \<^verbatim>\<open>app/services/rag\<close> and \<^verbatim>\<open>app/services/memory\<close> is embedded
  function by function. A Python \<^verbatim>\<open>str\<close> is a \<^typ>\<open>string\<close>, one \<^typ>\<open>char\<close> per character
  of the Python string; \<^verbatim>\<open>Optional[T]\<close> is \<^typ>\<open>'a option\<close>; a \<^verbatim>\<open>dict\<close> is an association
  list in insertion order. A value of \<open>exn\<close> is an instance of Python's \<^verbatim>\<open>Exception\<close>
  (what \<^verbatim>\<open>except Exception\<close> catches); a call that may raise returns \<open>exn + 'a\<close>, with
  \<open>Inl\<close> the raised exception. \<^verbatim>\<open>print\<close> calls only log and are left out.
\<close>

datatype exn
  = AttributeError string
  | IndexError string
  | KeyError string
  | OtherException string

text \<open>\<^verbatim>\<open>str(e)\<close>; a \<^verbatim>\<open>KeyError\<close> prints the repr of its key.\<close>

fun str_exn :: "exn \<Rightarrow> string" where
  "str_exn (AttributeError m) = m"
| "str_exn (IndexError m) = m"
| "str_exn (KeyError k) = [CHR 0x27] @ k @ [CHR 0x27]"
| "str_exn (OtherException m) = m"

text \<open>\<^verbatim>\<open>try: body  except Exception as e: handler(e)\<close>\<close>

definition try_except :: "exn + 'a \<Rightarrow> (exn \<Rightarrow> exn + 'a) \<Rightarrow> exn + 'a" where
  "try_except body handler = (case body of Inl e \<Rightarrow> handler e | Inr v \<Rightarrow> Inr v)"

text \<open>The values that are stored in dictionaries of type \<^verbatim>\<open>Dict[str, Any]\<close>.\<close>

datatype pyval
  = PNone
  | PBool bool
  | PInt int
  | PFloat real
  | PStr string
  | PList "pyval list"
  | PDict "(string \<times> pyval) list"

type_synonym pydict = "(string \<times> pyval) list"

text \<open>\<^verbatim>\<open>d[k]\<close> raises \<^verbatim>\<open>KeyError\<close> on a missing key; \<^verbatim>\<open>d.get(k, default)\<close> does not.\<close>

definition getitem :: "(string \<times> 'v) list \<Rightarrow> string \<Rightarrow> exn + 'v" where
  "getitem d k = (case map_of d k of None \<Rightarrow> Inl (KeyError k) | Some v \<Rightarrow> Inr v)"

definition dict_get :: "(string \<times> 'v) list \<Rightarrow> string \<Rightarrow> 'v \<Rightarrow> 'v" where
  "dict_get d k dflt = (case map_of d k of None \<Rightarrow> dflt | Some v \<Rightarrow> v)"

text \<open>Truthiness of an \<^verbatim>\<open>Optional[str]\<close> and of an \<^verbatim>\<open>Optional[int]\<close>.\<close>

fun truthy_str :: "string option \<Rightarrow> bool" where
  "truthy_str None = False"
| "truthy_str (Some s) = (s \<noteq> [])"

fun truthy_int :: "int option \<Rightarrow> bool" where
  "truthy_int None = False"
| "truthy_int (Some n) = (n \<noteq> 0)"

fun opt_int :: "int option \<Rightarrow> pyval" where
  "opt_int None = PNone"
| "opt_int (Some n) = PInt n"

fun opt_str :: "string option \<Rightarrow> pyval" where
  "opt_str None = PNone"
| "opt_str (Some s) = PStr s"

text \<open>
  \<^verbatim>\<open>str.isspace\<close> on the characters below 256, and \<^verbatim>\<open>str.strip()\<close>.
\<close>

definition isspace :: "char \<Rightarrow> bool" where
  "isspace c =
     (let n = (of_char c :: nat)
      in (9 \<le> n \<and> n \<le> 13) \<or> (28 \<le> n \<and> n \<le> 32) \<or> n = 133 \<or> n = 160)"

definition strip :: "string \<Rightarrow> string" where
  "strip s = rev (dropWhile isspace (rev (dropWhile isspace s)))"

text \<open>\<^verbatim>\<open>key.startswith('_')\<close>\<close>

fun startswith_underscore :: "string \<Rightarrow> bool" where
  "startswith_underscore [] = False"
| "startswith_underscore (c # cs) = (c = CHR ''_'')"

text \<open>\<^verbatim>\<open>sep.join(parts)\<close>\<close>

fun join :: "string \<Rightarrow> string list \<Rightarrow> string" where
  "join sep [] = []"
| "join sep [x] = x"
| "join sep (x # y # ys) = x @ sep @ join sep (y # ys)"

text \<open>The decimal digits of a natural number, as \<^verbatim>\<open>f"{i}"\<close> prints a loop counter.\<close>

definition digit_char :: "nat \<Rightarrow> char" where
  "digit_char d = ''0123456789'' ! d"

fun str_nat :: "nat \<Rightarrow> string" where
  "str_nat n = (if n < 10 then [digit_char n] else str_nat (n div 10) @ [digit_char (n mod 10)])"

declare str_nat.simps [simp del]

section \<open>The data model\<close>

text \<open>
  An element of \<^verbatim>\<open>retrieval_result.web_results\<close>: a dict, or any other object (named by
  its type), on which \<^verbatim>\<open>result.get\<close> raises \<^verbatim>\<open>AttributeError\<close>.
\<close>

datatype web_result
  = WebDict "(string \<times> string) list"
  | WebOther string

text \<open>
  \<^verbatim>\<open>RetrievalResult\<close> of \<^verbatim>\<open>base_memory\<close>. The fields that \<^verbatim>\<open>RAGResponse\<close> has too carry
  the prefix \<open>rr_\<close>. The values of \<open>facts\<close> are kept as the text an f-string prints.
\<close>

record RetrievalResult =
  memories :: "string list"
  facts :: "(string \<times> string) list"
  rr_web_results :: "web_result list"
  rr_sources :: "string list"
  rr_metadata :: pydict

text \<open>
  Modelled from the spec: \<^verbatim>\<open>RetrievalResult()\<close>, whose class is in \<^verbatim>\<open>base_memory.py\<close>,
  a file not among the sources: "All fields default to empty".
\<close>

definition RetrievalResult_default :: RetrievalResult where
  "RetrievalResult_default =
     \<lparr>memories = [], facts = [], rr_web_results = [], rr_sources = [], rr_metadata = []\<rparr>"

record RAGResponse =
  response :: string
  sources :: "string list"
  memory_used :: nat
  web_results :: nat
  facts_retrieved :: nat
  processing_time :: real
  metadata :: pydict
  conversation_id :: "string option"
  error :: "string option"

text \<open>
  The collaborators the services hold: the graph memory system, the OpenAI client, the
  web search service and the configured model name. Each call is a function of its
  arguments to its outcome. A completion is the list of the \<^verbatim>\<open>message.content\<close> of its
  \<^verbatim>\<open>choices\<close>.
\<close>

record ports =
  retrieve_context :: "string \<Rightarrow> nat \<Rightarrow> exn + RetrievalResult"
  store_conversation :: "string \<Rightarrow> string \<Rightarrow> pydict \<Rightarrow> exn + unit"
  create_completion ::
    "string \<Rightarrow> (string \<times> string) list \<Rightarrow> nat \<Rightarrow> real option \<Rightarrow> exn + string option list"
  memory_get_stats :: "exn + pydict"
  collection_available :: bool
  openai_client_available :: bool
  chroma_client_available :: bool
  search_health_check :: "exn + pydict"
  model :: string

section \<open>MemoryManager\<close>

text \<open>The \<^verbatim>\<open>context\<close> dict that both \<^verbatim>\<open>store_conversation\<close> variants build.\<close>

definition store_context :: "string option \<Rightarrow> int option \<Rightarrow> int option \<Rightarrow> pydict" where
  "store_context conv_id user_id digital_human_id =
     (if truthy_str conv_id then [(''conversation_id'', opt_str conv_id)] else []) @
     (if truthy_int user_id then [(''user_id'', opt_int user_id)] else []) @
     (if truthy_int digital_human_id then [(''digital_human_id'', opt_int digital_human_id)] else [])"

definition store_conversation_sync ::
  "ports \<Rightarrow> string \<Rightarrow> string \<Rightarrow> string option \<Rightarrow> int option \<Rightarrow> int option \<Rightarrow> exn + bool" where
  "store_conversation_sync p user_message assistant_response conv_id user_id digital_human_id =
     try_except
       (let context = store_context conv_id user_id digital_human_id
        in case store_conversation p user_message assistant_response context of
             Inl e \<Rightarrow> Inl e
           | Inr u \<Rightarrow> Inr True)
       (\<lambda>e. Inr False)"

text \<open>The asynchronous variant awaits the same call on the executor.\<close>

definition store_conversation_async ::
  "ports \<Rightarrow> string \<Rightarrow> string \<Rightarrow> string option \<Rightarrow> int option \<Rightarrow> int option \<Rightarrow> exn + bool" where
  "store_conversation_async p user_message assistant_response conv_id user_id digital_human_id =
     try_except
       (let context = store_context conv_id user_id digital_human_id
        in case store_conversation p user_message assistant_response context of
             Inl e \<Rightarrow> Inl e
           | Inr u \<Rightarrow> Inr True)
       (\<lambda>e. Inr False)"

text \<open>\<^verbatim>\<open>result.metadata[key] = value\<close>, done when the identifier is truthy.\<close>

definition tag_metadata :: "string \<Rightarrow> int option \<Rightarrow> RetrievalResult \<Rightarrow> RetrievalResult" where
  "tag_metadata key ident result =
     (if truthy_int ident
      then result\<lparr>rr_metadata := AList.update key (opt_int ident) (rr_metadata result)\<rparr>
      else result)"

definition retrieve_context_sync ::
  "ports \<Rightarrow> string \<Rightarrow> nat \<Rightarrow> int option \<Rightarrow> int option \<Rightarrow> exn + RetrievalResult" where
  "retrieve_context_sync p query max_results user_id digital_human_id =
     try_except
       (case retrieve_context p query max_results of
          Inl e \<Rightarrow> Inl e
        | Inr result \<Rightarrow>
            Inr (tag_metadata ''digital_human_id'' digital_human_id
                  (tag_metadata ''user_id'' user_id result)))
       (\<lambda>e. Inr RetrievalResult_default)"

definition retrieve_context_async ::
  "ports \<Rightarrow> string \<Rightarrow> nat \<Rightarrow> int option \<Rightarrow> int option \<Rightarrow> exn + RetrievalResult" where
  "retrieve_context_async p query max_results user_id digital_human_id =
     try_except
       (case retrieve_context p query max_results of
          Inl e \<Rightarrow> Inl e
        | Inr result \<Rightarrow>
            Inr (tag_metadata ''digital_human_id'' digital_human_id
                  (tag_metadata ''user_id'' user_id result)))
       (\<lambda>e. Inr RetrievalResult_default)"

text \<open>\<^verbatim>\<open>MemoryManager.health_check\<close>; the memory type is \<^verbatim>\<open>"graph"\<close>.\<close>

definition memory_manager_health_check :: "ports \<Rightarrow> pydict" where
  "memory_manager_health_check p =
     (case memory_get_stats p of
        Inr test_result \<Rightarrow>
          [(''status'', PStr ''healthy''),
           (''memory_type'', PStr ''graph''),
           (''collection_available'', PBool (collection_available p)),
           (''openai_client_available'', PBool (openai_client_available p)),
           (''chroma_client_available'', PBool (chroma_client_available p)),
           (''conversation_count'', dict_get test_result ''conversation_count'' (PInt 0))]
      | Inl e \<Rightarrow>
          [(''status'', PStr ''unhealthy''),
           (''memory_type'', PStr ''graph''),
           (''error'', PStr (str_exn e))])"

section \<open>RAGService: context assembly and generation\<close>

text \<open>
  The three loops of \<^verbatim>\<open>_generate_response_sync\<close> that append to \<^verbatim>\<open>context_parts\<close>. The
  first argument is the list so far, the counter is that of \<^verbatim>\<open>enumerate(..., 1)\<close>.
\<close>

fun append_memories :: "string list \<Rightarrow> nat \<Rightarrow> string list \<Rightarrow> string list" where
  "append_memories parts i [] = parts"
| "append_memories parts i (memory # rest) =
     append_memories (parts @ [str_nat i @ ''. '' @ memory]) (Suc i) rest"

fun append_facts :: "string list \<Rightarrow> (string \<times> string) list \<Rightarrow> string list" where
  "append_facts parts [] = parts"
| "append_facts parts ((key, v) # rest) =
     (if \<not> startswith_underscore key
      then append_facts (parts @ [''- '' @ key @ '': '' @ v]) rest
      else append_facts parts rest)"

fun append_web_results :: "string list \<Rightarrow> nat \<Rightarrow> web_result list \<Rightarrow> exn + string list" where
  "append_web_results parts i [] = Inr parts"
| "append_web_results parts i (WebOther ty # rest) =
     Inl (AttributeError ([CHR 0x27] @ ty @ [CHR 0x27] @ '' object has no attribute '' @
        [CHR 0x27] @ ''get'' @ [CHR 0x27]))"
| "append_web_results parts i (WebDict d # rest) =
     (let title = dict_get d ''title'' ''No title'';
          snippet = dict_get d ''snippet'' ''No description''
      in append_web_results (parts @ [str_nat i @ ''. '' @ title @ '': '' @ snippet]) (Suc i) rest)"

definition build_context_parts :: "RetrievalResult \<Rightarrow> exn + string list" where
  "build_context_parts retrieval_result =
     (let context_parts = [];
          context_parts =
            (if memories retrieval_result \<noteq> []
             then append_memories (context_parts @ [''Previous conversation context:'']) 1
                    (take 3 (memories retrieval_result))
             else context_parts);
          context_parts =
            (if facts retrieval_result \<noteq> []
             then append_facts (context_parts @ [''\<newline>Known facts about the user:''])
                    (facts retrieval_result)
             else context_parts)
      in if rr_web_results retrieval_result \<noteq> []
         then append_web_results
                (context_parts @ [''\<newline>Recent information from web search:'']) 1
                (take 3 (rr_web_results retrieval_result))
         else Inr context_parts)"

definition context_text_of :: "string list \<Rightarrow> string" where
  "context_text_of context_parts =
     (if context_parts \<noteq> [] then join ''\<newline>'' context_parts
      else ''No additional context available.'')"

text \<open>The context text of a retrieval result, or the exception the assembly raises.\<close>

definition context_text :: "RetrievalResult \<Rightarrow> exn + string" where
  "context_text retrieval_result =
     (case build_context_parts retrieval_result of
        Inl e \<Rightarrow> Inl e
      | Inr context_parts \<Rightarrow> Inr (context_text_of context_parts))"

text \<open>
  \<^verbatim>\<open>response.choices[0].message.content.strip()\<close>: an empty \<^verbatim>\<open>choices\<close> raises
  \<^verbatim>\<open>IndexError\<close>, a \<^verbatim>\<open>None\<close> content raises \<^verbatim>\<open>AttributeError\<close>.
\<close>

fun first_choice_content :: "string option list \<Rightarrow> exn + string" where
  "first_choice_content [] = Inl (IndexError ''list index out of range'')"
| "first_choice_content (None # rest) =
     Inl (AttributeError ([CHR 0x27] @ ''NoneType'' @ [CHR 0x27] @ '' object has no attribute '' @
        [CHR 0x27] @ ''strip'' @ [CHR 0x27]))"
| "first_choice_content (Some content # rest) = Inr (strip content)"

definition default_system_prompt :: string where
  "default_system_prompt =
     ''You are a helpful AI assistant with access to conversation memory and current web information.'' @
     ''\<newline>\<newline>'' @
     ''Use the provided context to give accurate, helpful responses. If you use information from web search results, mention that you found recent information. If you reference previous conversations, acknowledge the context naturally.'' @
     ''\<newline>\<newline>'' @
     ''Be conversational, helpful, and accurate. Don't mention technical details about your memory system or processing unless specifically asked.''"

text \<open>\<^verbatim>\<open>system_prompt or default_system_prompt\<close>\<close>

definition final_system_prompt :: "string option \<Rightarrow> string" where
  "final_system_prompt system_prompt =
     (case system_prompt of
        None \<Rightarrow> default_system_prompt
      | Some s \<Rightarrow> if s \<noteq> [] then s else default_system_prompt)"

definition user_prompt :: "string \<Rightarrow> string \<Rightarrow> string" where
  "user_prompt ctx user_message =
     ''Context:\<newline>'' @ ctx @ ''\<newline>\<newline>User message: '' @ user_message @
     ''\<newline>\<newline>Please respond naturally and helpfully based on the context provided.''"

text \<open>The two fallback texts of the handler around the OpenAI call.\<close>

definition fallback_response :: "string \<Rightarrow> RetrievalResult \<Rightarrow> string" where
  "fallback_response user_message retrieval_result =
     (if memories retrieval_result \<noteq> []
      then ''Based on our previous conversations, I understand you're asking about: '' @
           user_message @
           ''. However, I'm having trouble accessing my language model right now. Could you please try again?''
      else ''I understand you're asking about: '' @ user_message @
           ''. I'm experiencing some technical difficulties with my response generation. Please try again in a moment.'')"

text \<open>
  The \<^verbatim>\<open>try\<close> block around the OpenAI call: the request with the two messages,
  \<^verbatim>\<open>max_tokens=500\<close> and \<^verbatim>\<open>temperature=0.7\<close>, and the text read from the completion.
\<close>

definition openai_generate :: "ports \<Rightarrow> string \<Rightarrow> string \<Rightarrow> exn + string" where
  "openai_generate p system_content user_content =
     (case create_completion p (model p)
             [(''system'', system_content), (''user'', user_content)] 500 (Some (7 / 10)) of
        Inl e \<Rightarrow> Inl e
      | Inr choices \<Rightarrow> first_choice_content choices)"

definition generate_response_sync ::
  "ports \<Rightarrow> string \<Rightarrow> RetrievalResult \<Rightarrow> string option \<Rightarrow> exn + string" where
  "generate_response_sync p user_message retrieval_result system_prompt =
     (case build_context_parts retrieval_result of
        Inl e \<Rightarrow> Inl e
      | Inr context_parts \<Rightarrow>
          try_except
            (openai_generate p (final_system_prompt system_prompt)
               (user_prompt (context_text_of context_parts) user_message))
            (\<lambda>e. Inr (fallback_response user_message retrieval_result)))"

text \<open>\<^verbatim>\<open>_generate_response_async\<close> awaits \<^verbatim>\<open>_generate_response_sync\<close> on the executor.\<close>

definition generate_response_async ::
  "ports \<Rightarrow> string \<Rightarrow> RetrievalResult \<Rightarrow> string option \<Rightarrow> exn + string" where
  "generate_response_async p user_message retrieval_result system_prompt =
     generate_response_sync p user_message retrieval_result system_prompt"

section \<open>RAGService: one turn\<close>

text \<open>
  \<^verbatim>\<open>round(x, 2)\<close> rounds the exact value of \<open>x\<close> to two decimals, halves to even.
  A float is taken as the real number it stands for.
\<close>

definition round_half_even :: "real \<Rightarrow> int" where
  "round_half_even x =
     (let f = \<lfloor>x\<rfloor>; d = x - of_int f
      in if d < 1 / 2 then f else if 1 / 2 < d then f + 1 else if even f then f else f + 1)"

definition round2 :: "real \<Rightarrow> real" where
  "round2 x = of_int (round_half_even (x * 100)) / 100"

text \<open>
  The \<^verbatim>\<open>try\<close> block of \<^verbatim>\<open>chat_sync\<close>. \<open>start_time\<close> and \<open>end_time\<close> are the two readings
  of \<^verbatim>\<open>time.time()\<close> that a call makes: at entry, and before it builds its response.
\<close>

definition chat_sync_body ::
  "ports \<Rightarrow> real \<Rightarrow> real \<Rightarrow> string \<Rightarrow> string option \<Rightarrow> int option \<Rightarrow> int option \<Rightarrow>
   string option \<Rightarrow> exn + RAGResponse" where
  "chat_sync_body p start_time end_time user_message conv_id user_id digital_human_id system_prompt =
     (case retrieve_context_sync p user_message 5 user_id digital_human_id of
        Inl e \<Rightarrow> Inl e
      | Inr retrieval_result \<Rightarrow>
     (case generate_response_sync p user_message retrieval_result system_prompt of
        Inl e \<Rightarrow> Inl e
      | Inr response_text \<Rightarrow>
     (case store_conversation_sync p user_message response_text conv_id user_id
             digital_human_id of
        Inl e \<Rightarrow> Inl e
      | Inr stored \<Rightarrow>
          Inr \<lparr>response = response_text,
               sources = rr_sources retrieval_result,
               memory_used = length (memories retrieval_result),
               web_results = length (rr_web_results retrieval_result),
               facts_retrieved = length (facts retrieval_result),
               processing_time = round2 (end_time - start_time),
               metadata = rr_metadata retrieval_result,
               conversation_id = conv_id,
               error = None\<rparr>)))"

definition chat_sync ::
  "ports \<Rightarrow> real \<Rightarrow> real \<Rightarrow> string \<Rightarrow> string option \<Rightarrow> int option \<Rightarrow> int option \<Rightarrow>
   string option \<Rightarrow> exn + RAGResponse" where
  "chat_sync p start_time end_time user_message conv_id user_id digital_human_id system_prompt =
     try_except
       (chat_sync_body p start_time end_time user_message conv_id user_id digital_human_id
          system_prompt)
       (\<lambda>e. let error_msg = ''RAG processing failed: '' @ str_exn e
            in Inr \<lparr>response = ''I apologize, but I encountered an error processing your message. Please try again.'',
                    sources = [],
                    memory_used = 0,
                    web_results = 0,
                    facts_retrieved = 0,
                    processing_time = end_time - start_time,
                    metadata = [],
                    conversation_id = conv_id,
                    error = Some error_msg\<rparr>)"

definition chat_async_body ::
  "ports \<Rightarrow> real \<Rightarrow> real \<Rightarrow> string \<Rightarrow> string option \<Rightarrow> int option \<Rightarrow> int option \<Rightarrow>
   string option \<Rightarrow> exn + RAGResponse" where
  "chat_async_body p start_time end_time user_message conv_id user_id digital_human_id system_prompt =
     (case retrieve_context_async p user_message 5 user_id digital_human_id of
        Inl e \<Rightarrow> Inl e
      | Inr retrieval_result \<Rightarrow>
     (case generate_response_async p user_message retrieval_result system_prompt of
        Inl e \<Rightarrow> Inl e
      | Inr response_text \<Rightarrow>
     (case store_conversation_async p user_message response_text conv_id user_id
             digital_human_id of
        Inl e \<Rightarrow> Inl e
      | Inr stored \<Rightarrow>
          Inr \<lparr>response = response_text,
               sources = rr_sources retrieval_result,
               memory_used = length (memories retrieval_result),
               web_results = length (rr_web_results retrieval_result),
               facts_retrieved = length (facts retrieval_result),
               processing_time = round2 (end_time - start_time),
               metadata = rr_metadata retrieval_result,
               conversation_id = conv_id,
               error = None\<rparr>)))"

definition chat_async ::
  "ports \<Rightarrow> real \<Rightarrow> real \<Rightarrow> string \<Rightarrow> string option \<Rightarrow> int option \<Rightarrow> int option \<Rightarrow>
   string option \<Rightarrow> exn + RAGResponse" where
  "chat_async p start_time end_time user_message conv_id user_id digital_human_id system_prompt =
     try_except
       (chat_async_body p start_time end_time user_message conv_id user_id digital_human_id
          system_prompt)
       (\<lambda>e. let error_msg = ''RAG processing failed: '' @ str_exn e
            in Inr \<lparr>response = ''I apologize, but I encountered an error processing your message. Please try again.'',
                    sources = [],
                    memory_used = 0,
                    web_results = 0,
                    facts_retrieved = 0,
                    processing_time = end_time - start_time,
                    metadata = [],
                    conversation_id = conv_id,
                    error = Some error_msg\<rparr>)"

section \<open>ConversationService: formatting and streaming\<close>

text \<open>
  \<^verbatim>\<open>_format_response\<close>; \<open>utcnow\<close> is \<^verbatim>\<open>datetime.utcnow().isoformat()\<close>.
\<close>

definition format_response ::
  "RAGResponse \<Rightarrow> int option \<Rightarrow> int option \<Rightarrow> string \<Rightarrow> pydict" where
  "format_response rag_response user_id digital_human_id utcnow =
     [(''success'', PBool True),
      (''data'', PDict
         [(''message'', PStr (response rag_response)),
          (''conversation_id'', opt_str (conversation_id rag_response)),
          (''timestamp'', PStr utcnow),
          (''metadata'', PDict
             [(''sources'', PList (map PStr (sources rag_response))),
              (''memory_used'', PInt (int (memory_used rag_response))),
              (''web_results'', PInt (int (web_results rag_response))),
              (''facts_retrieved'', PInt (int (facts_retrieved rag_response))),
              (''processing_time'', PFloat (processing_time rag_response)),
              (''rag_metadata'', PDict (metadata rag_response)),
              (''user_id'', opt_int user_id),
              (''digital_human_id'', opt_int digital_human_id)])]),
      (''error'', opt_str (error rag_response))]"

text \<open>
  \<^verbatim>\<open>if not conversation_id: conversation_id = str(uuid.uuid4())\<close>; \<open>uuid4\<close> is the fresh
  identifier.
\<close>

definition ensure_conversation_id :: "string option \<Rightarrow> string \<Rightarrow> string" where
  "ensure_conversation_id conv_id uuid4 =
     (case conv_id of None \<Rightarrow> uuid4 | Some s \<Rightarrow> if s \<noteq> [] then s else uuid4)"

definition process_streaming_message ::
  "ports \<Rightarrow> real \<Rightarrow> real \<Rightarrow> string \<Rightarrow> string \<Rightarrow> int option \<Rightarrow> int option \<Rightarrow> string \<Rightarrow>
   string option \<Rightarrow> exn + pydict" where
  "process_streaming_message p start_time end_time utcnow message user_id digital_human_id conv_id
     system_prompt =
     (case chat_async p start_time end_time message (Some conv_id) user_id digital_human_id
             system_prompt of
        Inl e \<Rightarrow> Inl e
      | Inr rag_response \<Rightarrow>
          (let response_data = format_response rag_response user_id digital_human_id utcnow;
               response_data = AList.update ''streaming'' (PBool True) response_data;
               response_data = AList.update ''stream_complete'' (PBool True) response_data
           in Inr response_data))"

definition process_message_async ::
  "ports \<Rightarrow> real \<Rightarrow> real \<Rightarrow> string \<Rightarrow> string \<Rightarrow> string \<Rightarrow> int option \<Rightarrow> int option \<Rightarrow>
   string option \<Rightarrow> string option \<Rightarrow> bool \<Rightarrow> exn + pydict" where
  "process_message_async p start_time end_time uuid4 utcnow message user_id digital_human_id conv_id
     system_prompt stream =
     (let cid = ensure_conversation_id conv_id uuid4
      in try_except
           (if stream
            then process_streaming_message p start_time end_time utcnow message user_id
                   digital_human_id cid system_prompt
            else (case chat_async p start_time end_time message (Some cid) user_id
                         digital_human_id system_prompt of
                    Inl e \<Rightarrow> Inl e
                  | Inr rag_response \<Rightarrow>
                      Inr (format_response rag_response user_id digital_human_id utcnow)))
           (\<lambda>e. Inr [(''success'', PBool False),
                     (''error'', PStr (str_exn e)),
                     (''message'', PStr ''Failed to process conversation message''),
                     (''conversation_id'', PStr cid)]))"

text \<open>
  The events of \<^verbatim>\<open>stream_response_async\<close>. An event is the dict the generator passes to
  \<^verbatim>\<open>json.dumps\<close>; the generator yields it framed as \<^verbatim>\<open>data: <json>\n\n\<close>. The pause
  between two chunks is not part of the sequence.
\<close>

definition chunk_size :: nat where
  "chunk_size = 20"

definition metadata_event :: "string \<Rightarrow> RAGResponse \<Rightarrow> pydict" where
  "metadata_event cid rag_response =
     [(''type'', PStr ''metadata''),
      (''conversation_id'', PStr cid),
      (''sources'', PList (map PStr (sources rag_response))),
      (''memory_used'', PInt (int (memory_used rag_response))),
      (''web_results'', PInt (int (web_results rag_response))),
      (''processing_time'', PFloat (processing_time rag_response))]"

definition chunk_data :: "string \<Rightarrow> nat \<Rightarrow> pydict" where
  "chunk_data chunk chunk_id =
     [(''type'', PStr ''chunk''), (''content'', PStr chunk), (''chunk_id'', PInt (int chunk_id))]"

definition completion_data :: "string \<Rightarrow> nat \<Rightarrow> pydict" where
  "completion_data cid total_chunks =
     [(''type'', PStr ''complete''),
      (''conversation_id'', PStr cid),
      (''total_chunks'', PInt (int total_chunks))]"

definition error_data :: "string \<Rightarrow> string \<Rightarrow> pydict" where
  "error_data msg cid =
     [(''type'', PStr ''error''), (''error'', PStr msg), (''conversation_id'', PStr cid)]"

text \<open>\<^verbatim>\<open>for i in range(0, len(response_text), chunk_size)\<close>, from position \<open>i\<close> on.\<close>

function chunk_loop :: "string \<Rightarrow> nat \<Rightarrow> pydict list" where
  "chunk_loop response_text i =
     (if i < length response_text
      then chunk_data (take chunk_size (drop i response_text)) (i div chunk_size)
           # chunk_loop response_text (i + chunk_size)
      else [])"
  by pat_completeness auto
termination
  by (relation "measure (\<lambda>(response_text, i). length response_text - i)")
     (auto simp: chunk_size_def)

declare chunk_loop.simps [simp del]

text \<open>
  The events the generator yields for the outcome of its \<^verbatim>\<open>chat_async\<close> call, in order.
\<close>

definition stream_events :: "string \<Rightarrow> exn + RAGResponse \<Rightarrow> pydict list" where
  "stream_events cid outcome =
     (case outcome of
        Inr rag_response \<Rightarrow>
          (let response_text = response rag_response
           in [metadata_event cid rag_response] @
              chunk_loop response_text 0 @
              [completion_data cid ((length response_text + chunk_size - 1) div chunk_size)])
      | Inl e \<Rightarrow> [error_data (str_exn e) cid])"

definition stream_response_async ::
  "ports \<Rightarrow> real \<Rightarrow> real \<Rightarrow> string \<Rightarrow> string \<Rightarrow> int option \<Rightarrow> int option \<Rightarrow> string option \<Rightarrow>
   string option \<Rightarrow> pydict list" where
  "stream_response_async p start_time end_time uuid4 message user_id digital_human_id conv_id
     system_prompt =
     (let cid = ensure_conversation_id conv_id uuid4
      in stream_events cid
           (chat_async p start_time end_time message (Some cid) user_id digital_human_id
              system_prompt))"

text \<open>Reading the events back: the kind of an event and the fields of a chunk.\<close>

definition event_type :: "pydict \<Rightarrow> pyval" where
  "event_type ev = dict_get ev ''type'' PNone"

definition chunk_events :: "pydict list \<Rightarrow> pydict list" where
  "chunk_events evs = filter (\<lambda>ev. event_type ev = PStr ''chunk'') evs"

fun content_of :: "pydict \<Rightarrow> string" where
  "content_of ev = (case dict_get ev ''content'' PNone of PStr s \<Rightarrow> s | _ \<Rightarrow> [])"

section \<open>RAGService: health check\<close>

text \<open>
  \<^verbatim>\<open>health_check\<close>. The test call to OpenAI stands in a bare \<^verbatim>\<open>except\<close>; the
  \<^verbatim>\<open>or\<close> and \<^verbatim>\<open>and\<close> of the two conditions evaluate \<^verbatim>\<open>search_health['status']\<close>
  only when their left operands leave them undecided.
\<close>

definition openai_test :: "ports \<Rightarrow> bool" where
  "openai_test p =
     (case create_completion p (model p) [(''user'', ''test'')] 1 None of
        Inl e \<Rightarrow> False
      | Inr test_response \<Rightarrow> True)"

definition health_check_body :: "ports \<Rightarrow> exn + pydict" where
  "health_check_body p =
     (let memory_health = memory_manager_health_check p
      in case search_health_check p of
           Inl e \<Rightarrow> Inl e
         | Inr search_health \<Rightarrow>
     (let openai_healthy = openai_test p
      in case getitem memory_health ''status'' of
           Inl e \<Rightarrow> Inl e
         | Inr memory_status \<Rightarrow>
     (case (if memory_status \<noteq> PStr ''healthy'' then Inr True
            else case getitem search_health ''status'' of
                   Inl e \<Rightarrow> Inl e
                 | Inr search_status \<Rightarrow>
                     Inr (search_status = PStr ''unhealthy'' \<or> \<not> openai_healthy)) of
        Inl e \<Rightarrow> Inl e
      | Inr degraded \<Rightarrow>
     (case (if openai_healthy then Inr False
            else case getitem search_health ''status'' of
                   Inl e \<Rightarrow> Inl e
                 | Inr search_status \<Rightarrow> Inr (search_status = PStr ''unhealthy'')) of
        Inl e \<Rightarrow> Inl e
      | Inr unhealthy \<Rightarrow>
          (let overall_status =
                 (if unhealthy then ''unhealthy''
                  else if degraded then ''degraded'' else ''healthy'')
           in Inr [(''status'', PStr overall_status),
                   (''components'', PDict
                      [(''memory_manager'', PDict memory_health),
                       (''search_service'', PDict search_health),
                       (''openai_client'', PBool openai_healthy)]),
                   (''model'', PStr (model p)),
                   (''capabilities_available'', PBool (overall_status \<noteq> ''unhealthy''))])))))"

definition health_check :: "ports \<Rightarrow> pydict" where
  "health_check p =
     (case health_check_body p of
        Inr report \<Rightarrow> report
      | Inl e \<Rightarrow> [(''status'', PStr ''unhealthy''), (''error'', PStr (str_exn e))])"

section \<open>Concrete collaborators and inputs\<close>

text \<open>
  Collaborators that all succeed: retrieval finds nothing, the model answers
  \<^verbatim>\<open>" Hi there! "\<close>, the store accepts the turn.
\<close>

definition base_ports :: ports where
  "base_ports =
     \<lparr>retrieve_context = (\<lambda>query max_results. Inr RetrievalResult_default),
      store_conversation = (\<lambda>user_message assistant_response context. Inr ()),
      create_completion = (\<lambda>mdl messages max_tokens temperature. Inr [Some '' Hi there! '']),
      memory_get_stats = Inr [(''conversation_count'', PInt 3)],
      collection_available = True,
      openai_client_available = True,
      chroma_client_available = True,
      search_health_check = Inr [(''status'', PStr ''healthy'')],
      model = ''gpt-4o-mini''\<rparr>"

text \<open>
  A retrieval result with four memories, an internal fact among three, and four web
  results of which the fourth is not a dict.
\<close>

definition demo_retrieval :: RetrievalResult where
  "demo_retrieval =
     \<lparr>memories = [''likes tea'', ''lives in Oslo'', ''has a cat'', ''plays chess''],
      facts = [(''name'', ''Ann''), (''_updated'', ''2024''), (''city'', ''Oslo'')],
      rr_web_results =
        [WebDict [(''title'', ''Tea''), (''snippet'', ''A drink'')],
         WebDict [(''title'', ''Oslo'')],
         WebDict [],
         WebOther ''str''],
      rr_sources = [''memory'', ''web''],
      rr_metadata = []\<rparr>"

text \<open>Retrieval hands back a web result that is a string, not a dict.\<close>

definition malformed_ports :: ports where
  "malformed_ports =
     base_ports\<lparr>retrieve_context :=
       (\<lambda>query max_results. Inr (RetrievalResult_default\<lparr>rr_web_results := [WebOther ''str'']\<rparr>))\<rparr>"

text \<open>A response whose text has 45 characters.\<close>

definition demo_response :: RAGResponse where
  "demo_response =
     \<lparr>response = ''Hello, this is a streamed answer of 45 chars.'',
      sources = [''memory''], memory_used = 1, web_results = 0, facts_retrieved = 0,
      processing_time = 1 / 4, metadata = [], conversation_id = Some ''c1'', error = None\<rparr>"

text \<open>The model call fails; with and without a memory retrieved.\<close>

definition tea_ports :: ports where
  "tea_ports =
     base_ports\<lparr>retrieve_context :=
                  (\<lambda>query max_results. Inr (RetrievalResult_default\<lparr>memories := [''likes tea'']\<rparr>)),
                create_completion :=
                  (\<lambda>mdl messages max_tokens temperature. Inl (OtherException ''timeout''))\<rparr>"

definition offline_ports :: ports where
  "offline_ports =
     base_ports\<lparr>create_completion :=
                  (\<lambda>mdl messages max_tokens temperature. Inl (OtherException ''timeout''))\<rparr>"

text \<open>The memory store rejects the write.\<close>

definition readonly_ports :: ports where
  "readonly_ports =
     base_ports\<lparr>store_conversation :=
                  (\<lambda>user_message assistant_response context. Inl (OtherException ''disk full''))\<rparr>"

text \<open>Health-check collaborators: the memory store down, the model and the search both
  down, and a search service whose own health check raises.\<close>

definition memory_down_ports :: ports where
  "memory_down_ports = base_ports\<lparr>memory_get_stats := Inl (OtherException ''store down'')\<rparr>"

definition all_down_ports :: ports where
  "all_down_ports =
     base_ports\<lparr>create_completion :=
                  (\<lambda>mdl messages max_tokens temperature. Inl (OtherException ''timeout'')),
                search_health_check := Inr [(''status'', PStr ''unhealthy'')]\<rparr>"

definition search_down_ports :: ports where
  "search_down_ports = base_ports\<lparr>search_health_check := Inl (OtherException ''search down'')\<rparr>"

section \<open>Basic facts\<close>

lemma try_except_Inr [simp]: "try_except (Inr v) h = Inr v"
  by (simp add: try_except_def)

lemma try_except_Inl [simp]: "try_except (Inl e) h = h e"
  by (simp add: try_except_def)

lemma str_nat_digits [simp]:
  "str_nat (Suc 0) = ''1''"
  "str_nat (Suc (Suc 0)) = ''2''"
  "str_nat (Suc (Suc (Suc 0))) = ''3''"
  by (simp_all add: str_nat.simps digit_char_def)

section \<open>Context assembly\<close>

text \<open>Each loop appends its lines, in the order of its input, to the list it is given.\<close>

lemma append_memories_eq:
  "append_memories parts i ms =
     parts @ map (\<lambda>(j, m). str_nat j @ ''. '' @ m) (List.enumerate i ms)"
  by (induction ms arbitrary: parts i) simp_all

lemma append_facts_eq:
  "append_facts parts fs =
     parts @ map (\<lambda>(k, v). ''- '' @ k @ '': '' @ v)
               (filter (\<lambda>(k, v). \<not> startswith_underscore k) fs)"
  by (induction fs arbitrary: parts) auto

lemma append_web_results_eq:
  "append_web_results parts i (map WebDict ds) =
     Inr (parts @ map (\<lambda>(j, d). str_nat j @ ''. '' @ dict_get d ''title'' ''No title'' @ '': '' @
                          dict_get d ''snippet'' ''No description'')
                   (List.enumerate i ds))"
  by (induction ds arbitrary: parts i) simp_all

text \<open>
  C5. When memories, facts and web results are all non-empty, and the web results that
  are rendered (the first three) are dicts, the context text is the lines joined by
  newlines of: the memory header and the first three memories numbered from 1; then the
  facts header and one \<open>- key: value\<close> line for every fact whose key does not start
  with an underscore, in the order of the dict; then the web header and the first three
  web results numbered from 1 as \<open>title: snippet\<close>. The three blocks follow one
  another and are never interleaved.
\<close>

theorem context_order:
  assumes "memories rr \<noteq> []" and "facts rr \<noteq> []" and "rr_web_results rr \<noteq> []"
    and "take 3 (rr_web_results rr) = map WebDict ds"
  shows "context_text rr =
     Inr (join ''\<newline>''
       ([''Previous conversation context:''] @
        map (\<lambda>(i, m). str_nat i @ ''. '' @ m) (List.enumerate 1 (take 3 (memories rr))) @
        [''\<newline>Known facts about the user:''] @
        map (\<lambda>(k, v). ''- '' @ k @ '': '' @ v)
          (filter (\<lambda>(k, v). \<not> startswith_underscore k) (facts rr)) @
        [''\<newline>Recent information from web search:''] @
        map (\<lambda>(i, d). str_nat i @ ''. '' @ dict_get d ''title'' ''No title'' @ '': '' @
                          dict_get d ''snippet'' ''No description'')
          (List.enumerate 1 ds)))"
  using assms
  by (simp add: context_text_def build_context_parts_def context_text_of_def
      append_memories_eq append_facts_eq append_web_results_eq)

theorem context_order_witness:
  "context_text demo_retrieval =
     Inr (''Previous conversation context:\<newline>1. likes tea\<newline>2. lives in Oslo\<newline>3. has a cat\<newline>'' @
          ''\<newline>Known facts about the user:\<newline>- name: Ann\<newline>- city: Oslo\<newline>'' @
          ''\<newline>Recent information from web search:\<newline>1. Tea: A drink\<newline>2. Oslo: No description\<newline>3. No title: No description'')"
proof -
  have m: "memories demo_retrieval \<noteq> []" and f: "facts demo_retrieval \<noteq> []"
    and w: "rr_web_results demo_retrieval \<noteq> []"
    by (simp_all add: demo_retrieval_def)
  have t: "take 3 (rr_web_results demo_retrieval) =
      map WebDict [[(''title'', ''Tea''), (''snippet'', ''A drink'')], [(''title'', ''Oslo'')], []]"
    by (simp add: demo_retrieval_def)
  show ?thesis
    using context_order [OF m f w t]
    by (simp add: demo_retrieval_def dict_get_def)
qed

text \<open>
  C6. When memories, facts and web results are all empty, the context text is exactly
  \<open>No additional context available.\<close>
\<close>

theorem empty_context:
  assumes "memories rr = []" and "facts rr = []" and "rr_web_results rr = []"
  shows "context_text rr = Inr ''No additional context available.''"
  using assms
  by (simp add: context_text_def build_context_parts_def context_text_of_def)

theorem empty_context_witness:
  "context_text RetrievalResult_default = Inr ''No additional context available.''"
  using empty_context [of RetrievalResult_default]
  by (simp add: RetrievalResult_default_def)

section \<open>The two entry points\<close>

lemma retrieve_context_async_eq: "retrieve_context_async = retrieve_context_sync"
  by (intro ext) (simp add: retrieve_context_async_def retrieve_context_sync_def)

lemma generate_response_async_eq: "generate_response_async = generate_response_sync"
  by (intro ext) (simp add: generate_response_async_def)

lemma store_conversation_async_eq: "store_conversation_async = store_conversation_sync"
  by (intro ext) (simp add: store_conversation_async_def store_conversation_sync_def)

lemma chat_async_body_eq: "chat_async_body = chat_sync_body"
  unfolding chat_async_body_def chat_sync_body_def retrieve_context_async_eq
    generate_response_async_eq store_conversation_async_eq
  by (rule refl)

lemma chat_async_eq: "chat_async = chat_sync"
  by (intro ext) (simp add: chat_async_def chat_sync_def chat_async_body_eq)

text \<open>
  C4. For the same collaborators, the same two clock readings and the same arguments,
  \<open>chat_async\<close> and \<open>chat_sync\<close> return the same value: the same response with every
  field equal, the rounded processing time included.
\<close>

theorem chat_async_eq_chat_sync:
  "chat_async p start_time end_time user_message conv_id user_id digital_human_id system_prompt =
   chat_sync p start_time end_time user_message conv_id user_id digital_human_id system_prompt"
  by (simp add: chat_async_def chat_sync_def chat_async_body_eq)

lemma chat_sync_cases:
  "chat_sync p s t m c u d sp =
     (case chat_sync_body p s t m c u d sp of
        Inr r \<Rightarrow> Inr r
      | Inl e \<Rightarrow>
          Inr \<lparr>response = ''I apologize, but I encountered an error processing your message. Please try again.'',
               sources = [], memory_used = 0, web_results = 0, facts_retrieved = 0,
               processing_time = t - s, metadata = [], conversation_id = c,
               error = Some (''RAG processing failed: '' @ str_exn e)\<rparr>)"
  by (simp add: chat_sync_def try_except_def Let_def split: sum.splits)

lemma malformed_body:
  "chat_sync_body malformed_ports s t m c None None sp =
     Inl (AttributeError (CHR 0x27 # ''str'' @ CHR 0x27 # '' object has no attribute '' @
            CHR 0x27 # ''get'' @ [CHR 0x27]))"
  by (simp add: chat_sync_body_def malformed_ports_def base_ports_def retrieve_context_sync_def
      tag_metadata_def RetrievalResult_default_def generate_response_sync_def
      build_context_parts_def)

text \<open>
  C1. \<open>chat_sync\<close> and \<open>chat_async\<close> never raise: each returns a response. When the
  \<open>try\<close> block raises \<open>e\<close>, that response has the fixed apology as its text, no sources,
  the three counts zero, and \<open>error\<close> set to \<open>RAG processing failed: \<close> followed by
  \<open>str(e)\<close>.
\<close>

theorem chat_total:
  "(\<exists>r. chat_sync p s t m c u d sp = Inr r \<and>
        (\<forall>e. chat_sync_body p s t m c u d sp = Inl e \<longrightarrow>
           r = \<lparr>response = ''I apologize, but I encountered an error processing your message. Please try again.'',
                 sources = [], memory_used = 0, web_results = 0, facts_retrieved = 0,
                 processing_time = t - s, metadata = [], conversation_id = c,
                 error = Some (''RAG processing failed: '' @ str_exn e)\<rparr>)) \<and>
   (\<exists>r. chat_async p s t m c u d sp = Inr r \<and>
        (\<forall>e. chat_async_body p s t m c u d sp = Inl e \<longrightarrow>
           r = \<lparr>response = ''I apologize, but I encountered an error processing your message. Please try again.'',
                 sources = [], memory_used = 0, web_results = 0, facts_retrieved = 0,
                 processing_time = t - s, metadata = [], conversation_id = c,
                 error = Some (''RAG processing failed: '' @ str_exn e)\<rparr>))"
proof -
  have sync: "\<exists>r. chat_sync p s t m c u d sp = Inr r \<and>
        (\<forall>e. chat_sync_body p s t m c u d sp = Inl e \<longrightarrow>
           r = \<lparr>response = ''I apologize, but I encountered an error processing your message. Please try again.'',
                 sources = [], memory_used = 0, web_results = 0, facts_retrieved = 0,
                 processing_time = t - s, metadata = [], conversation_id = c,
                 error = Some (''RAG processing failed: '' @ str_exn e)\<rparr>)"
    by (cases "chat_sync_body p s t m c u d sp") (simp_all add: chat_sync_cases)
  then show ?thesis
    by (simp add: chat_async_body_eq chat_async_eq)
qed

theorem chat_total_witness:
  "chat_sync malformed_ports 0 1 ''Hello'' None None None None =
     Inr \<lparr>response = ''I apologize, but I encountered an error processing your message. Please try again.'',
          sources = [], memory_used = 0, web_results = 0, facts_retrieved = 0,
          processing_time = 1, metadata = [], conversation_id = None,
          error = Some (''RAG processing failed: '' @ CHR 0x27 # ''str'' @ CHR 0x27 #
                    '' object has no attribute '' @ CHR 0x27 # ''get'' @ [CHR 0x27])\<rparr>"
  using chat_total [of malformed_ports 0 1 "''Hello''" None None None None]
  by (auto simp add: malformed_body)

section \<open>Streaming\<close>

lemma ceil_div_20: "nat \<lceil>real L / 20\<rceil> = (L + 19) div 20"
proof -
  have "real L / 20 = of_int (int L) / of_int 20" by simp
  then have "\<lceil>real L / 20\<rceil> = - (- int L div 20)"
    by (simp only: ceiling_divide_eq_div)
  also have "\<dots> = (int L + 19) div 20" by linarith
  also have "\<dots> = int ((L + 19) div 20)" by (simp add: zdiv_int)
  finally show ?thesis by simp
qed

lemma step_count: "i < (n::nat) \<Longrightarrow> Suc ((n - (i + 20) + 19) div 20) = (n - i + 19) div 20"
proof (cases "i + 20 \<le> n")
  case True
  then have "n - i + 19 = (n - (i + 20) + 19) + 20" by simp
  then show ?thesis by (simp only: div_add_self2)
next
  case False
  assume "i < n"
  with False have "n - (i + 20) = 0" and "20 \<le> n - i + 19" and "n - i + 19 < 40" by simp_all
  then show ?thesis by simp
qed

lemma chunk_loop_step:
  "i < length t \<Longrightarrow>
   chunk_loop t i = chunk_data (take 20 (drop i t)) (i div 20) # chunk_loop t (i + 20)"
  by (subst chunk_loop.simps) (simp add: chunk_size_def)

lemma chunk_loop_done: "\<not> i < length t \<Longrightarrow> chunk_loop t i = []"
  by (subst chunk_loop.simps) simp

lemma content_of_chunk_data: "content_of (chunk_data s k) = s"
  by (simp add: chunk_data_def dict_get_def)

lemma chunk_id_chunk_data: "dict_get (chunk_data s k) ''chunk_id'' PNone = PInt (int k)"
  by (simp add: chunk_data_def dict_get_def)

lemma event_type_chunk_data: "event_type (chunk_data s k) = PStr ''chunk''"
  by (simp add: chunk_data_def event_type_def dict_get_def)

lemma chunk_loop_content: "concat (map content_of (chunk_loop t i)) = drop i t"
proof (induction t i rule: chunk_loop.induct)
  case (1 t i)
  show ?case
  proof (cases "i < length t")
    case True
    have "take 20 (drop i t) @ drop 20 (drop i t) = drop i t"
      by (rule append_take_drop_id)
    then have split: "take 20 (drop i t) @ drop (i + 20) t = drop i t"
      by (simp add: add.commute)
    note ih = 1 [OF True, unfolded chunk_size_def]
    show ?thesis
      by (simp only: chunk_loop_step [OF True] list.map concat.simps content_of_chunk_data ih split)
  next
    case False
    then show ?thesis by (simp add: chunk_loop_done)
  qed
qed

lemma chunk_loop_length: "length (chunk_loop t i) = (length t - i + 19) div 20"
proof (induction t i rule: chunk_loop.induct)
  case (1 t i)
  show ?case
  proof (cases "i < length t")
    case True
    note ih = 1 [OF True, unfolded chunk_size_def]
    have "length (chunk_loop t i) = Suc ((length t - (i + 20) + 19) div 20)"
      by (simp add: chunk_loop_step [OF True] ih)
    also have "\<dots> = (length t - i + 19) div 20"
      using True by (rule step_count)
    finally show ?thesis .
  next
    case False
    then show ?thesis by (simp add: chunk_loop_done)
  qed
qed

lemma chunk_loop_ids:
  "map (\<lambda>ev. dict_get ev ''chunk_id'' PNone) (chunk_loop t i) =
     map (\<lambda>k. PInt (int (i div 20 + k))) [0 ..< length (chunk_loop t i)]"
proof (induction t i rule: chunk_loop.induct)
  case (1 t i)
  show ?case
  proof (cases "i < length t")
    case True
    from 1 [OF True] have ih:
      "map (\<lambda>ev. dict_get ev ''chunk_id'' PNone) (chunk_loop t (i + 20)) =
         map (\<lambda>k. PInt (int (i div 20 + Suc k))) [0 ..< length (chunk_loop t (i + 20))]"
      by (simp add: chunk_size_def)
    have "map (\<lambda>ev. dict_get ev ''chunk_id'' PNone) (chunk_loop t i) =
        PInt (int (i div 20)) #
        map (\<lambda>k. PInt (int (i div 20 + Suc k))) [0 ..< length (chunk_loop t (i + 20))]"
      by (simp only: chunk_loop_step [OF True] list.map chunk_id_chunk_data ih)
    also have "\<dots> =
        map (\<lambda>k. PInt (int (i div 20 + k))) [0 ..< Suc (length (chunk_loop t (i + 20)))]"
      by (simp only: map_upt_Suc add_0_right)
    also have "Suc (length (chunk_loop t (i + 20))) = length (chunk_loop t i)"
      by (simp add: chunk_loop_step [OF True])
    finally show ?thesis .
  next
    case False
    then show ?thesis by (simp add: chunk_loop_done)
  qed
qed

lemma chunk_loop_all_chunks: "chunk_events (chunk_loop t i) = chunk_loop t i"
proof (induction t i rule: chunk_loop.induct)
  case (1 t i)
  show ?case
  proof (cases "i < length t")
    case True
    note ih = 1 [OF True, unfolded chunk_size_def]
    have "chunk_events (chunk_data s k # evs) = chunk_data s k # chunk_events evs" for s k evs
      by (simp add: chunk_events_def event_type_chunk_data)
    then show ?thesis
      by (simp only: chunk_loop_step [OF True] ih)
  next
    case False
    then show ?thesis by (simp add: chunk_loop_done chunk_events_def)
  qed
qed

lemma stream_events_Inr:
  "stream_events cid (Inr r) =
     metadata_event cid r # chunk_loop (response r) 0 @
     [completion_data cid ((length (response r) + 19) div 20)]"
  by (simp add: stream_events_def Let_def chunk_size_def add.commute)

lemma event_type_metadata: "event_type (metadata_event cid r) = PStr ''metadata''"
  by (simp add: metadata_event_def event_type_def dict_get_def)

lemma event_type_completion: "event_type (completion_data cid n) = PStr ''complete''"
  by (simp add: completion_data_def event_type_def dict_get_def)

lemma chunk_events_stream:
  "chunk_events (stream_events cid (Inr r)) = chunk_loop (response r) 0"
proof -
  have "chunk_events (m # xs @ [c]) = chunk_events xs"
    if "event_type m = PStr ''metadata''" "event_type c = PStr ''complete''" for m c xs
    using that by (simp add: chunk_events_def)
  then show ?thesis
    by (simp only: stream_events_Inr event_type_metadata event_type_completion
        chunk_loop_all_chunks)
qed

lemma chat_async_total: "\<exists>r. chat_async p s t m c u d sp = Inr r"
  by (cases "chat_async_body p s t m c u d sp") (simp_all add: chat_async_def Let_def)

lemma chunk_loop_types:
  "map event_type (chunk_loop t i) = replicate (length (chunk_loop t i)) (PStr ''chunk'')"
proof (induction t i rule: chunk_loop.induct)
  case (1 t i)
  show ?case
  proof (cases "i < length t")
    case True
    note ih = 1 [OF True, unfolded chunk_size_def]
    show ?thesis
      by (simp add: chunk_loop_step [OF True] event_type_chunk_data ih)
  next
    case False
    then show ?thesis by (simp add: chunk_loop_done)
  qed
qed

lemma total_chunks_completion:
  "dict_get (completion_data cid n) ''total_chunks'' PNone = PInt (int n)"
  by (simp add: completion_data_def dict_get_def)

lemma last_stream_events:
  "last (stream_events cid (Inr r)) = completion_data cid ((length (response r) + 19) div 20)"
  by (simp add: stream_events_Inr)

text \<open>
  C2. For a response text of length \<open>L\<close> the generator yields one metadata event, then
  \<open>ceil(L/20)\<close> chunk events, then one complete event, and no other event. The
  \<open>content\<close> fields of the chunk events, concatenated in order, are the text; their
  \<open>chunk_id\<close> fields are \<open>0, 1, ..., ceil(L/20) - 1\<close>; the \<open>total_chunks\<close> field of the
  complete event is \<open>ceil(L/20)\<close>. For the empty text the events are the metadata event
  and the complete event with \<open>total_chunks = 0\<close>, and there is no chunk event. The
  events of a call of \<open>stream_response_async\<close> are those of the response that its
  \<open>chat_async\<close> call returned.
\<close>

theorem stream_chunking:
  "(let evs = stream_events cid (Inr r); n = nat \<lceil>real (length (response r)) / 20\<rceil>
    in map event_type evs =
         PStr ''metadata'' # replicate n (PStr ''chunk'') @ [PStr ''complete''] \<and>
       length (chunk_events evs) = n \<and>
       concat (map content_of (chunk_events evs)) = response r \<and>
       map (\<lambda>ev. dict_get ev ''chunk_id'' PNone) (chunk_events evs) =
         map (\<lambda>k. PInt (int k)) [0 ..< n] \<and>
       dict_get (last evs) ''total_chunks'' PNone = PInt (int n) \<and>
       (response r = [] \<longrightarrow>
          map event_type evs = [PStr ''metadata'', PStr ''complete''] \<and>
          chunk_events evs = [] \<and>
          dict_get (last evs) ''total_chunks'' PNone = PInt 0)) \<and>
   (\<exists>r'. chat_async p s t m (Some (ensure_conversation_id c uuid4)) u d sp = Inr r' \<and>
         stream_response_async p s t uuid4 m u d c sp =
           stream_events (ensure_conversation_id c uuid4) (Inr r'))"
proof -
  let ?evs = "stream_events cid (Inr r)"
  let ?L = "length (response r)"
  let ?n = "nat \<lceil>real ?L / 20\<rceil>"
  have n: "?n = (?L + 19) div 20" by (rule ceil_div_20)
  have ce: "chunk_events ?evs = chunk_loop (response r) 0" by (rule chunk_events_stream)
  have len: "length (chunk_events ?evs) = ?n"
    by (simp add: ce n chunk_loop_length)
  have len': "length (chunk_loop (response r) 0) = ?n"
    using len by (simp add: ce)
  have types: "map event_type ?evs =
      PStr ''metadata'' # replicate ?n (PStr ''chunk'') @ [PStr ''complete'']"
    by (simp add: stream_events_Inr event_type_metadata event_type_completion
        chunk_loop_types len')
  have ids: "map (\<lambda>ev. dict_get ev ''chunk_id'' PNone) (chunk_events ?evs) =
         map (\<lambda>k. PInt (int k)) [0 ..< ?n]"
    using chunk_loop_ids [of "response r" 0] len by (simp add: ce)
  have content: "concat (map content_of (chunk_events ?evs)) = response r"
    by (simp only: ce chunk_loop_content drop_0)
  have total: "dict_get (last ?evs) ''total_chunks'' PNone = PInt (int ?n)"
    by (simp only: last_stream_events total_chunks_completion n)
  have empty: "response r = [] \<longrightarrow>
          map event_type ?evs = [PStr ''metadata'', PStr ''complete''] \<and>
          chunk_events ?evs = [] \<and>
          dict_get (last ?evs) ''total_chunks'' PNone = PInt 0"
    by (simp add: ce chunk_loop_done last_stream_events total_chunks_completion)
       (simp add: stream_events_Inr chunk_loop_done event_type_metadata event_type_completion)
  have turn: "\<exists>r'. chat_async p s t m (Some (ensure_conversation_id c uuid4)) u d sp = Inr r' \<and>
         stream_response_async p s t uuid4 m u d c sp =
           stream_events (ensure_conversation_id c uuid4) (Inr r')"
    using chat_async_total [of p s t m "Some (ensure_conversation_id c uuid4)" u d sp]
    by (auto simp add: stream_response_async_def Let_def)
  show ?thesis
    unfolding Let_def using types len content ids total empty turn
    by (intro conjI) assumption+
qed

lemma chat_async_base:
  "chat_async base_ports 0 0 ''Hello'' (Some ''c1'') None None None =
     Inr \<lparr>response = ''Hi there!'', sources = [], memory_used = 0, web_results = 0,
          facts_retrieved = 0, processing_time = 0, metadata = [],
          conversation_id = Some ''c1'', error = None\<rparr>"
proof -
  have "strip '' Hi there! '' = ''Hi there!''"
    by (simp add: strip_def isspace_def)
  then show ?thesis
    by (simp add: chat_async_eq chat_sync_def chat_sync_body_def retrieve_context_sync_def
        base_ports_def tag_metadata_def generate_response_sync_def build_context_parts_def
        RetrievalResult_default_def openai_generate_def store_conversation_sync_def
        round2_def round_half_even_def)
qed

theorem stream_chunking_witness:
  "length (chunk_events (stream_events ''c1'' (Inr demo_response))) = 3 \<and>
   concat (map content_of (chunk_events (stream_events ''c1'' (Inr demo_response)))) =
     ''Hello, this is a streamed answer of 45 chars.'' \<and>
   map (\<lambda>ev. dict_get ev ''chunk_id'' PNone)
       (chunk_events (stream_events ''c1'' (Inr demo_response))) = [PInt 0, PInt 1, PInt 2] \<and>
   dict_get (last (stream_events ''c1'' (Inr demo_response))) ''total_chunks'' PNone = PInt 3 \<and>
   map event_type (stream_events ''c1'' (Inr (demo_response\<lparr>response := []\<rparr>))) =
     [PStr ''metadata'', PStr ''complete''] \<and>
   dict_get (last (stream_events ''c1'' (Inr (demo_response\<lparr>response := []\<rparr>))))
     ''total_chunks'' PNone = PInt 0 \<and>
   stream_response_async base_ports 0 0 ''uuid'' ''Hello'' None None (Some ''c1'') None =
     stream_events ''c1''
       (Inr \<lparr>response = ''Hi there!'', sources = [], memory_used = 0, web_results = 0,
             facts_retrieved = 0, processing_time = 0, metadata = [],
             conversation_id = Some ''c1'', error = None\<rparr>)"
proof -
  have n: "nat \<lceil>real (length (response demo_response)) / 20\<rceil> = 3"
    by (simp add: demo_response_def)
  have u: "[0 ..< 3] = [0, 1, 2::nat]"
    by (simp add: upt_rec)
  have e: "ensure_conversation_id (Some ''c1'') ''uuid'' = ''c1''"
    by (simp add: ensure_conversation_id_def)
  show ?thesis
    using stream_chunking [of "''c1''" demo_response base_ports 0 0 "''Hello''" "Some ''c1''"
        "''uuid''" None None None]
      stream_chunking [of "''c1''" "demo_response\<lparr>response := []\<rparr>" base_ports 0 0 "''Hello''"
        "Some ''c1''" "''uuid''" None None None]
    unfolding Let_def n u e chat_async_base
    by (simp add: demo_response_def)
qed

section \<open>Failures inside a turn\<close>

lemma chat_async_cases:
  "chat_async p s t m c u d sp =
     (case chat_async_body p s t m c u d sp of
        Inr r \<Rightarrow> Inr r
      | Inl e \<Rightarrow>
          Inr \<lparr>response = ''I apologize, but I encountered an error processing your message. Please try again.'',
               sources = [], memory_used = 0, web_results = 0, facts_retrieved = 0,
               processing_time = t - s, metadata = [], conversation_id = c,
               error = Some (''RAG processing failed: '' @ str_exn e)\<rparr>)"
  by (simp add: chat_async_eq chat_async_body_eq chat_sync_cases)

lemma apology_chunks:
  "chunk_loop ''I apologize, but I encountered an error processing your message. Please try again.'' 0 =
     [chunk_data ''I apologize, but I e'' 0,
      chunk_data ''ncountered an error '' 1,
      chunk_data ''processing your mess'' 2,
      chunk_data ''age. Please try agai'' 3,
      chunk_data ''n.'' 4]"
  by (simp add: chunk_loop_step chunk_loop_done)

text \<open>
  C3, as the code has it. A turn whose \<open>try\<close> block raises is answered by \<open>chat_async\<close>
  with its error response, and the adapter streams that response like any other, in
  place of an error event: the metadata event with the conversation id, no sources and
  zero counts, the fixed apology in five chunk events with \<open>chunk_id\<close> 0 to 4, and the
  complete event with \<open>total_chunks = 5\<close>, after which the sequence ends. No event of
  type \<open>error\<close> is among them.
\<close>

theorem stream_of_failed_turn:
  "chat_async_body p s t m (Some (ensure_conversation_id c uuid4)) u d sp = Inl e \<longrightarrow>
      stream_response_async p s t uuid4 m u d c sp =
        [[(''type'', PStr ''metadata''),
          (''conversation_id'', PStr (ensure_conversation_id c uuid4)),
          (''sources'', PList []),
          (''memory_used'', PInt 0),
          (''web_results'', PInt 0),
          (''processing_time'', PFloat (t - s))],
         [(''type'', PStr ''chunk''), (''content'', PStr ''I apologize, but I e''),
          (''chunk_id'', PInt 0)],
         [(''type'', PStr ''chunk''), (''content'', PStr ''ncountered an error ''),
          (''chunk_id'', PInt 1)],
         [(''type'', PStr ''chunk''), (''content'', PStr ''processing your mess''),
          (''chunk_id'', PInt 2)],
         [(''type'', PStr ''chunk''), (''content'', PStr ''age. Please try agai''),
          (''chunk_id'', PInt 3)],
         [(''type'', PStr ''chunk''), (''content'', PStr ''n.''), (''chunk_id'', PInt 4)],
         [(''type'', PStr ''complete''),
          (''conversation_id'', PStr (ensure_conversation_id c uuid4)),
          (''total_chunks'', PInt 5)]] \<and>
      PStr ''error'' \<notin> set (map event_type (stream_response_async p s t uuid4 m u d c sp))"
proof
  assume failed: "chat_async_body p s t m (Some (ensure_conversation_id c uuid4)) u d sp = Inl e"
  then have evs: "stream_response_async p s t uuid4 m u d c sp =
        [[(''type'', PStr ''metadata''),
          (''conversation_id'', PStr (ensure_conversation_id c uuid4)),
          (''sources'', PList []),
          (''memory_used'', PInt 0),
          (''web_results'', PInt 0),
          (''processing_time'', PFloat (t - s))],
         [(''type'', PStr ''chunk''), (''content'', PStr ''I apologize, but I e''),
          (''chunk_id'', PInt 0)],
         [(''type'', PStr ''chunk''), (''content'', PStr ''ncountered an error ''),
          (''chunk_id'', PInt 1)],
         [(''type'', PStr ''chunk''), (''content'', PStr ''processing your mess''),
          (''chunk_id'', PInt 2)],
         [(''type'', PStr ''chunk''), (''content'', PStr ''age. Please try agai''),
          (''chunk_id'', PInt 3)],
         [(''type'', PStr ''chunk''), (''content'', PStr ''n.''), (''chunk_id'', PInt 4)],
         [(''type'', PStr ''complete''),
          (''conversation_id'', PStr (ensure_conversation_id c uuid4)),
          (''total_chunks'', PInt 5)]]"
    by (simp add: stream_response_async_def Let_def chat_async_cases stream_events_Inr
        apology_chunks metadata_event_def chunk_data_def completion_data_def)
  have "PStr ''error'' \<notin> set (map event_type (stream_response_async p s t uuid4 m u d c sp))"
    by (simp add: evs event_type_def dict_get_def)
  with evs show "stream_response_async p s t uuid4 m u d c sp =
        [[(''type'', PStr ''metadata''),
          (''conversation_id'', PStr (ensure_conversation_id c uuid4)),
          (''sources'', PList []),
          (''memory_used'', PInt 0),
          (''web_results'', PInt 0),
          (''processing_time'', PFloat (t - s))],
         [(''type'', PStr ''chunk''), (''content'', PStr ''I apologize, but I e''),
          (''chunk_id'', PInt 0)],
         [(''type'', PStr ''chunk''), (''content'', PStr ''ncountered an error ''),
          (''chunk_id'', PInt 1)],
         [(''type'', PStr ''chunk''), (''content'', PStr ''processing your mess''),
          (''chunk_id'', PInt 2)],
         [(''type'', PStr ''chunk''), (''content'', PStr ''age. Please try agai''),
          (''chunk_id'', PInt 3)],
         [(''type'', PStr ''chunk''), (''content'', PStr ''n.''), (''chunk_id'', PInt 4)],
         [(''type'', PStr ''complete''),
          (''conversation_id'', PStr (ensure_conversation_id c uuid4)),
          (''total_chunks'', PInt 5)]] \<and>
      PStr ''error'' \<notin> set (map event_type (stream_response_async p s t uuid4 m u d c sp))"
    by (rule conjI)
qed

lemma malformed_async_body:
  "chat_async_body malformed_ports s t m c None None sp =
     Inl (AttributeError (CHR 0x27 # ''str'' @ CHR 0x27 # '' object has no attribute '' @
            CHR 0x27 # ''get'' @ [CHR 0x27]))"
  by (simp add: chat_async_body_eq malformed_body)

theorem stream_of_failed_turn_witness:
  "stream_response_async malformed_ports 0 1 ''uuid'' ''Hello'' None None (Some ''c1'') None =
        [[(''type'', PStr ''metadata''),
          (''conversation_id'', PStr ''c1''),
          (''sources'', PList []),
          (''memory_used'', PInt 0),
          (''web_results'', PInt 0),
          (''processing_time'', PFloat 1)],
         [(''type'', PStr ''chunk''), (''content'', PStr ''I apologize, but I e''),
          (''chunk_id'', PInt 0)],
         [(''type'', PStr ''chunk''), (''content'', PStr ''ncountered an error ''),
          (''chunk_id'', PInt 1)],
         [(''type'', PStr ''chunk''), (''content'', PStr ''processing your mess''),
          (''chunk_id'', PInt 2)],
         [(''type'', PStr ''chunk''), (''content'', PStr ''age. Please try agai''),
          (''chunk_id'', PInt 3)],
         [(''type'', PStr ''chunk''), (''content'', PStr ''n.''), (''chunk_id'', PInt 4)],
         [(''type'', PStr ''complete''),
          (''conversation_id'', PStr ''c1''),
          (''total_chunks'', PInt 5)]] \<and>
   PStr ''error'' \<notin> set (map event_type
     (stream_response_async malformed_ports 0 1 ''uuid'' ''Hello'' None None (Some ''c1'') None))"
proof -
  have e: "ensure_conversation_id (Some ''c1'') ''uuid'' = ''c1''"
    by (simp add: ensure_conversation_id_def)
  have b: "chat_async_body malformed_ports 0 1 ''Hello'' (Some ''c1'') None None None =
     Inl (AttributeError (CHR 0x27 # ''str'' @ CHR 0x27 # '' object has no attribute '' @
            CHR 0x27 # ''get'' @ [CHR 0x27]))"
    by (rule malformed_async_body)
  have "chat_async_body malformed_ports 0 1 ''Hello''
      (Some (ensure_conversation_id (Some ''c1'') ''uuid'')) None None None =
     Inl (AttributeError (CHR 0x27 # ''str'' @ CHR 0x27 # '' object has no attribute '' @
            CHR 0x27 # ''get'' @ [CHR 0x27]))"
    using b by (simp only: e)
  from stream_of_failed_turn [rule_format, OF this] show ?thesis
    unfolding e diff_zero .
qed

text \<open>
  A failed turn whose stream has seven events, none of them an error event.
\<close>

theorem failed_turn_streams_no_error_event:
  "chat_async_body malformed_ports 0 1 ''Hello'' (Some ''c1'') None None None =
     Inl (AttributeError (CHR 0x27 # ''str'' @ CHR 0x27 # '' object has no attribute '' @
            CHR 0x27 # ''get'' @ [CHR 0x27])) \<and>
   map event_type
     (stream_response_async malformed_ports 0 1 ''uuid'' ''Hello'' None None (Some ''c1'') None) =
     [PStr ''metadata'', PStr ''chunk'', PStr ''chunk'', PStr ''chunk'', PStr ''chunk'',
      PStr ''chunk'', PStr ''complete'']"
  by (simp add: malformed_async_body stream_response_async_def Let_def chat_async_cases
      stream_events_Inr apology_chunks ensure_conversation_id_def event_type_metadata
      event_type_completion event_type_chunk_data)

lemma store_conversation_sync_total:
  "\<exists>b. store_conversation_sync p m a c u d = Inr b"
  by (cases "store_conversation p m a (store_context c u d)")
     (auto simp add: store_conversation_sync_def Let_def)

lemma chat_sync_body_success:
  assumes "retrieve_context_sync p m 5 u d = Inr rr"
    and "generate_response_sync p m rr sp = Inr text"
  shows "chat_sync_body p s t m c u d sp =
     Inr \<lparr>response = text, sources = rr_sources rr, memory_used = length (memories rr),
          web_results = length (rr_web_results rr), facts_retrieved = length (facts rr),
          processing_time = round2 (t - s), metadata = rr_metadata rr, conversation_id = c,
          error = None\<rparr>"
proof -
  obtain b where "store_conversation_sync p m text c u d = Inr b"
    using store_conversation_sync_total by blast
  with assms show ?thesis
    by (simp add: chat_sync_body_def)
qed

text \<open>
  C7. When the context is assembled and the OpenAI call then fails, the turn does not
  fail: both entry points return a response whose \<open>error\<close> is \<open>None\<close> and whose text is
  the fallback that quotes the user's message, the variant that speaks of previous
  conversations when memories were retrieved, the generic one otherwise.
\<close>

theorem generation_failure_fallback:
  assumes "retrieve_context_sync p m 5 u d = Inr rr"
    and "build_context_parts rr = Inr parts"
    and "openai_generate p (final_system_prompt sp)
           (user_prompt (context_text_of parts) m) = Inl e"
  shows "\<exists>r. chat_sync p s t m c u d sp = Inr r \<and> chat_async p s t m c u d sp = Inr r \<and>
     error r = None \<and>
     response r =
       (if memories rr \<noteq> []
        then ''Based on our previous conversations, I understand you're asking about: '' @ m @
             ''. However, I'm having trouble accessing my language model right now. Could you please try again?''
        else ''I understand you're asking about: '' @ m @
             ''. I'm experiencing some technical difficulties with my response generation. Please try again in a moment.'')"
proof -
  have "generate_response_sync p m rr sp = Inr (fallback_response m rr)"
    using assms(2,3) by (simp add: generate_response_sync_def)
  from chat_sync_body_success [OF assms(1) this]
  show ?thesis
    by (simp add: chat_async_eq chat_sync_cases fallback_response_def)
qed

theorem generation_failure_fallback_witness:
  "(\<exists>r. chat_async tea_ports 0 1 ''Hello'' None None None None = Inr r \<and> error r = None \<and>
      response r = ''Based on our previous conversations, I understand you're asking about: Hello. However, I'm having trouble accessing my language model right now. Could you please try again?'') \<and>
   (\<exists>r. chat_async offline_ports 0 1 ''Hello'' None None None None = Inr r \<and> error r = None \<and>
      response r = ''I understand you're asking about: Hello. I'm experiencing some technical difficulties with my response generation. Please try again in a moment.'')"
proof -
  have r1: "retrieve_context_sync tea_ports ''Hello'' 5 None None =
      Inr (RetrievalResult_default\<lparr>memories := [''likes tea'']\<rparr>)"
    by (simp add: retrieve_context_sync_def tea_ports_def base_ports_def tag_metadata_def)
  have b1: "build_context_parts (RetrievalResult_default\<lparr>memories := [''likes tea'']\<rparr>) =
      Inr [''Previous conversation context:'', ''1. likes tea'']"
    by (simp add: build_context_parts_def RetrievalResult_default_def)
  have g1: "openai_generate tea_ports (final_system_prompt None)
      (user_prompt (context_text_of [''Previous conversation context:'', ''1. likes tea'']) ''Hello'') =
      Inl (OtherException ''timeout'')"
    by (simp add: openai_generate_def tea_ports_def base_ports_def)
  have r2: "retrieve_context_sync offline_ports ''Hello'' 5 None None = Inr RetrievalResult_default"
    by (simp add: retrieve_context_sync_def offline_ports_def base_ports_def tag_metadata_def)
  have b2: "build_context_parts RetrievalResult_default = Inr []"
    by (simp add: build_context_parts_def RetrievalResult_default_def)
  have g2: "openai_generate offline_ports (final_system_prompt None)
      (user_prompt (context_text_of []) ''Hello'') = Inl (OtherException ''timeout'')"
    by (simp add: openai_generate_def offline_ports_def base_ports_def)
  show ?thesis
    using generation_failure_fallback [OF r1 b1 g1, of 0 1 None]
      generation_failure_fallback [OF r2 b2 g2, of 0 1 None]
    by (auto simp add: RetrievalResult_default_def)
qed

text \<open>
  C8. When the store raises on the turn's write, \<open>chat_async\<close> returns a response with
  \<open>error = None\<close> whose text is the generated text, the same response it returns when
  the store accepts the write.
\<close>

theorem persistence_failure_absorbed:
  assumes "retrieve_context_async p m 5 u d = Inr rr"
    and "generate_response_async p m rr sp = Inr text"
    and "store_conversation p m text (store_context c u d) = Inl e"
  shows "\<exists>r. chat_async p s t m c u d sp = Inr r \<and> error r = None \<and> response r = text \<and>
     chat_async (p\<lparr>store_conversation := \<lambda>user_message assistant_response context. Inr ()\<rparr>)
       s t m c u d sp = Inr r"
proof -
  let ?q = "p\<lparr>store_conversation := \<lambda>user_message assistant_response context. Inr ()\<rparr>"
  have r: "retrieve_context_sync p m 5 u d = Inr rr"
    using assms(1) by (simp add: retrieve_context_async_eq)
  have g: "generate_response_sync p m rr sp = Inr text"
    using assms(2) by (simp add: generate_response_async_eq)
  have rq: "retrieve_context_sync ?q m 5 u d = Inr rr"
    using r by (simp add: retrieve_context_sync_def)
  have og: "openai_generate ?q = openai_generate p"
    by (intro ext) (simp add: openai_generate_def)
  have "generate_response_sync ?q m rr sp = generate_response_sync p m rr sp"
    unfolding generate_response_sync_def og by (rule refl)
  with g have gq: "generate_response_sync ?q m rr sp = Inr text"
    by simp
  show ?thesis
    using chat_sync_body_success [OF r g, of s t c] chat_sync_body_success [OF rq gq, of s t c]
    by (simp add: chat_async_eq chat_sync_cases)
qed

lemma strip_hi: "strip '' Hi there! '' = ''Hi there!''"
  by (simp add: strip_def isspace_def)

theorem persistence_failure_absorbed_witness:
  "\<exists>r. chat_async readonly_ports 0 1 ''Hello'' (Some ''c1'') (Some 7) None None = Inr r \<and>
       error r = None \<and> response r = ''Hi there!''"
proof -
  have r: "retrieve_context_async readonly_ports ''Hello'' 5 (Some 7) None =
      Inr (RetrievalResult_default\<lparr>rr_metadata := [(''user_id'', PInt 7)]\<rparr>)"
    by (simp add: retrieve_context_async_def readonly_ports_def base_ports_def tag_metadata_def
        RetrievalResult_default_def)
  have g: "generate_response_async readonly_ports ''Hello''
      (RetrievalResult_default\<lparr>rr_metadata := [(''user_id'', PInt 7)]\<rparr>) None = Inr ''Hi there!''"
    by (simp add: generate_response_async_def generate_response_sync_def build_context_parts_def
        RetrievalResult_default_def openai_generate_def readonly_ports_def base_ports_def strip_hi)
  have st: "store_conversation readonly_ports ''Hello'' ''Hi there!''
      (store_context (Some ''c1'') (Some 7) None) = Inl (OtherException ''disk full'')"
    by (simp add: readonly_ports_def base_ports_def)
  show ?thesis
    using persistence_failure_absorbed [OF r g st, of 0 1] by blast
qed

section \<open>Health check\<close>

lemma memory_status:
  "getitem (memory_manager_health_check p) ''status'' =
     Inr (if isl (memory_get_stats p) then PStr ''unhealthy'' else PStr ''healthy'')"
  "dict_get (memory_manager_health_check p) ''status'' PNone =
     (if isl (memory_get_stats p) then PStr ''unhealthy'' else PStr ''healthy'')"
  by (cases "memory_get_stats p";
      simp add: memory_manager_health_check_def getitem_def dict_get_def)+

lemma health_check_status:
  assumes "search_health_check p = Inr sh" and "map_of sh ''status'' = Some ss"
  shows "dict_get (health_check p) ''status'' PNone =
     PStr (if \<not> openai_test p \<and> ss = PStr ''unhealthy'' then ''unhealthy''
           else if isl (memory_get_stats p) \<or> ss = PStr ''unhealthy'' \<or> \<not> openai_test p
                then ''degraded''
           else ''healthy'')"
proof -
  have g: "getitem sh ''status'' = Inr ss"
    using assms(2) by (simp add: getitem_def)
  show ?thesis
  proof (cases "openai_test p")
    case True
    then show ?thesis
      by (cases "isl (memory_get_stats p)")
         (simp_all add: health_check_def health_check_body_def Let_def assms(1) g
            memory_status(1) dict_get_def)
  next
    case False
    then show ?thesis
      by (cases "isl (memory_get_stats p)")
         (simp_all add: health_check_def health_check_body_def Let_def assms(1) g
            memory_status(1) dict_get_def)
  qed
qed

text \<open>
  C9, as the code has it. When the search service's health check returns a report with
  a status, the overall status is one of \<open>healthy\<close>, \<open>degraded\<close>, \<open>unhealthy\<close>; it is
  \<open>degraded\<close> whenever the memory manager or the search service is unhealthy and the
  OpenAI test call works; and it is \<open>unhealthy\<close> exactly when the OpenAI test call fails
  and the search status is \<open>unhealthy\<close>. When the search service's health check raises,
  the report is \<open>unhealthy\<close> with the error text, whatever the OpenAI call would do.
\<close>

theorem health_status:
  "(search_health_check p = Inr sh \<and> map_of sh ''status'' = Some ss \<longrightarrow>
      (let st = dict_get (health_check p) ''status'' PNone;
           ms = dict_get (memory_manager_health_check p) ''status'' PNone
       in (st = PStr ''healthy'' \<or> st = PStr ''degraded'' \<or> st = PStr ''unhealthy'') \<and>
          (openai_test p \<and> (ms = PStr ''unhealthy'' \<or> ss = PStr ''unhealthy'') \<longrightarrow>
             st = PStr ''degraded'') \<and>
          ((st = PStr ''unhealthy'') = (\<not> openai_test p \<and> ss = PStr ''unhealthy'')))) \<and>
   (search_health_check p = Inl e \<longrightarrow>
      health_check p = [(''status'', PStr ''unhealthy''), (''error'', PStr (str_exn e))])"
proof -
  have raised: "health_check p = [(''status'', PStr ''unhealthy''), (''error'', PStr (str_exn e))]"
    if "search_health_check p = Inl e"
    using that by (simp add: health_check_def health_check_body_def Let_def)
  have "(let st = dict_get (health_check p) ''status'' PNone;
           ms = dict_get (memory_manager_health_check p) ''status'' PNone
       in (st = PStr ''healthy'' \<or> st = PStr ''degraded'' \<or> st = PStr ''unhealthy'') \<and>
          (openai_test p \<and> (ms = PStr ''unhealthy'' \<or> ss = PStr ''unhealthy'') \<longrightarrow>
             st = PStr ''degraded'') \<and>
          ((st = PStr ''unhealthy'') = (\<not> openai_test p \<and> ss = PStr ''unhealthy'')))"
    if "search_health_check p = Inr sh" "map_of sh ''status'' = Some ss"
    by (auto simp add: health_check_status [OF that] memory_status(2) Let_def)
  with raised show ?thesis by blast
qed

theorem health_status_witness:
  "dict_get (health_check memory_down_ports) ''status'' PNone = PStr ''degraded'' \<and>
   dict_get (health_check all_down_ports) ''status'' PNone = PStr ''unhealthy'' \<and>
   health_check search_down_ports =
     [(''status'', PStr ''unhealthy''), (''error'', PStr ''search down'')]"
proof -
  have s1: "search_health_check memory_down_ports = Inr [(''status'', PStr ''healthy'')]"
    and s2: "search_health_check all_down_ports = Inr [(''status'', PStr ''unhealthy'')]"
    and s3: "search_health_check search_down_ports = Inl (OtherException ''search down'')"
    by (simp_all add: memory_down_ports_def all_down_ports_def search_down_ports_def
        base_ports_def)
  have o: "openai_test memory_down_ports" "\<not> openai_test all_down_ports"
    by (simp_all add: openai_test_def memory_down_ports_def all_down_ports_def base_ports_def)
  have m: "dict_get (memory_manager_health_check memory_down_ports) ''status'' PNone =
      PStr ''unhealthy''"
    by (simp add: memory_manager_health_check_def memory_down_ports_def base_ports_def
        dict_get_def)
  show ?thesis
    using health_status [of memory_down_ports "[(''status'', PStr ''healthy'')]" "PStr ''healthy''"]
      health_status [of all_down_ports "[(''status'', PStr ''unhealthy'')]" "PStr ''unhealthy''"]
      health_status [of search_down_ports _ _ "OtherException ''search down''"]
    by (simp add: s1 s2 s3 o m Let_def)
qed

text \<open>
  The search service's health check raises, the OpenAI test call works, and the overall
  status is \<open>unhealthy\<close>.
\<close>

theorem unhealthy_while_generation_works:
  "openai_test search_down_ports \<and>
   dict_get (health_check search_down_ports) ''status'' PNone = PStr ''unhealthy''"
  by (simp add: openai_test_def search_down_ports_def base_ports_def health_check_def
      health_check_body_def Let_def dict_get_def)

section \<open>The non-streaming result\<close>

text \<open>
  C10. The formatted result of a response has \<open>success = True\<close> and carries the
  response's \<open>error\<close> in its \<open>error\<close> field, set or not; the non-streaming
  \<open>process_message_async\<close> returns the formatted result of the response \<open>chat_async\<close>
  returned. A failed turn so yields \<open>success = True\<close> together with an error text.
\<close>

theorem format_response_success:
  "dict_get (format_response r u d now) ''success'' PNone = PBool True \<and>
   dict_get (format_response r u d now) ''error'' PNone = opt_str (error r) \<and>
   (\<exists>r'. chat_async p s t m (Some (ensure_conversation_id c uuid4)) u d sp = Inr r' \<and>
         process_message_async p s t uuid4 now m u d c sp False =
           Inr (format_response r' u d now))"
proof -
  obtain r' where "chat_async p s t m (Some (ensure_conversation_id c uuid4)) u d sp = Inr r'"
    using chat_async_total by blast
  then have "process_message_async p s t uuid4 now m u d c sp False =
           Inr (format_response r' u d now)"
    by (simp add: process_message_async_def Let_def)
  with \<open>chat_async p s t m (Some (ensure_conversation_id c uuid4)) u d sp = Inr r'\<close>
  show ?thesis
    by (auto simp add: format_response_def dict_get_def)
qed

theorem format_response_success_witness:
  "\<exists>resp. process_message_async malformed_ports 0 1 ''uuid'' ''2024-01-01T00:00:00'' ''Hello''
             None None None None False = Inr resp \<and>
     dict_get resp ''success'' PNone = PBool True \<and>
     dict_get resp ''error'' PNone =
       PStr (''RAG processing failed: '' @ CHR 0x27 # ''str'' @ CHR 0x27 #
               '' object has no attribute '' @ CHR 0x27 # ''get'' @ [CHR 0x27])"
proof -
  have c: "chat_async malformed_ports 0 1 ''Hello'' (Some ''uuid'') None None None =
     Inr \<lparr>response = ''I apologize, but I encountered an error processing your message. Please try again.'',
          sources = [], memory_used = 0, web_results = 0, facts_retrieved = 0,
          processing_time = 1, metadata = [], conversation_id = Some ''uuid'',
          error = Some (''RAG processing failed: '' @ CHR 0x27 # ''str'' @ CHR 0x27 #
                    '' object has no attribute '' @ CHR 0x27 # ''get'' @ [CHR 0x27])\<rparr>"
    by (simp add: chat_async_cases malformed_async_body)
  show ?thesis
    using format_response_success [of _ None None "''2024-01-01T00:00:00''" malformed_ports 0 1
        "''Hello''" None "''uuid''" None]
    by (auto simp add: c ensure_conversation_id_def)
qed

end
